theory Spec2Isabelle
  imports Complex_Main
begin

section \<open>Embedding of \<open>pylinger_cosmo.py\<close>\<close>

text \<open>
  Floating-point numbers are modelled as \<^typ>\<open>real\<close>: rounding, overflow, \<open>inf\<close> and
  \<open>nan\<close> are outside the model, and a quotient by zero, which the array libraries answer
  with \<open>inf\<close> or \<open>nan\<close>, is HOL's \<open>x / 0 = 0\<close>. One-dimensional arrays are lists.
  A Python-level \<open>float / 0\<close> raises and is a branch of the model.
\<close>

subsection \<open>Errors and the numerical libraries\<close>

datatype error =
    ZeroDivisionError   \<comment> \<open>Python's \<open>float / 0\<close>\<close>
  | BroadcastError      \<comment> \<open>the array library's shape error (numpy: ValueError, jax: TypeError or ValueError)\<close>
  | SplineError         \<comment> \<open>the interpolant's constructor refuses its data (jax_cosmo: AssertionError, scipy: dfitpack.error or ValueError)\<close>
  | TracerError         \<comment> \<open>\<open>jax.jit\<close> meets a traced value where a concrete one is needed\<close>
  | IndexError          \<comment> \<open>an index into a value that has no such entry\<close>

text \<open>
  An interpolant object \<open>InterpolatedUnivariateSpline(x, y)\<close> is the pair of its abscissas
  and ordinates. What the interpolation and quadrature libraries (\<open>jax_cosmo\<close>, \<open>scipy\<close>)
  and the thermal-history module \<open>pylinger_thermo_jax\<close> compute is not part of
  \<open>pylinger_cosmo.py\<close>; it is a parameter of every function below. What the constructor
  refuses is modelled: both libraries build the default cubic interpolant from at least
  four points, as many abscissas as ordinates; \<open>scipy\<close> also wants the abscissas strictly
  increasing, which \<open>jax_cosmo\<close>, working on traced values, does not look at.
\<close>

type_synonym spline = "real list \<times> real list"

definition jax_spline :: "real list \<Rightarrow> real list \<Rightarrow> error + spline" where
  "jax_spline x y =
     (if length x = length y \<and> 4 \<le> length x then Inr (x, y) else Inl SplineError)"

definition scipy_spline :: "real list \<Rightarrow> real list \<Rightarrow> error + spline" where
  "scipy_spline x y =
     (if length x = length y \<and> 4 \<le> length x \<and> sorted_wrt (<) x then Inr (x, y)
      else Inl SplineError)"

record thermo =
  th_tau :: "real list"
  th_cs2 :: "real list"
  th_tb :: "real list"
  th_xe :: "real list"
  th_a :: "real list"

record numlib =
  spl_integral :: "spline \<Rightarrow> real \<Rightarrow> real \<Rightarrow> real"
    \<comment> \<open>\<open>sp.integral(lo, hi)\<close>\<close>
  spl_eval :: "spline \<Rightarrow> real \<Rightarrow> real"
    \<comment> \<open>\<open>sp(x)\<close>\<close>
  romb :: "(real \<Rightarrow> real) \<Rightarrow> real \<Rightarrow> real \<Rightarrow> real"
    \<comment> \<open>\<open>romb(f, lo, hi)\<close>\<close>
  thermo_compute :: "real \<Rightarrow> real \<Rightarrow> nat \<Rightarrow> real \<Rightarrow> real \<Rightarrow> real \<Rightarrow> real \<Rightarrow> real \<Rightarrow> real
      \<Rightarrow> real \<Rightarrow> int \<Rightarrow> spline \<Rightarrow> thermo"
    \<comment> \<open>\<open>pthermo.compute(taumin, taumax, nthermo, Tcmb, YHe, H0, Omegab, Omegam, OmegaL, Neff, Nmnu, rhonu_sp)\<close>\<close>

subsection \<open>Array arithmetic\<close>

text \<open>\<open>arange(m, n)\<close> on integers: \<open>m, m + 1, \<dots>, n - 1\<close>.\<close>

definition arange :: "nat \<Rightarrow> nat \<Rightarrow> nat list" where
  "arange m n = [m..<n]"

text \<open>
  Elementwise arithmetic on two one-dimensional arrays: equal lengths combine pointwise, a
  length-one operand is stretched to the other's length, and any other pair of lengths
  raises.
\<close>

definition broadcast2 :: "(real \<Rightarrow> real \<Rightarrow> real) \<Rightarrow> real list \<Rightarrow> real list \<Rightarrow> error + real list" where
  "broadcast2 f xs ys =
     (if length xs = length ys then Inr (map2 f xs ys)
      else if length xs = 1 then Inr (map (f (hd xs)) ys)
      else if length ys = 1 then Inr (map (\<lambda>x. f x (hd ys)) xs)
      else Inl BroadcastError)"

text \<open>
  \<open>g = zeros(n + 1); g[1:] = val\<close> (numpy) and \<open>g.at[1:].set(val)\<close> (jax): the value must
  have the slice's length \<open>n\<close> or length one.
\<close>

definition set_tail :: "nat \<Rightarrow> real list \<Rightarrow> error + real list" where
  "set_tail n val =
     (if length val = n then Inr (0 # val)
      else if length val = 1 then Inr (0 # replicate n (hd val))
      else Inl BroadcastError)"

definition and_then :: "error + 'a \<Rightarrow> ('a \<Rightarrow> error + 'b) \<Rightarrow> error + 'b" where
  "and_then r f = (case r of Inl e \<Rightarrow> Inl e | Inr x \<Rightarrow> f x)"

subsection \<open>\<open>ninu1\<close>: density and pressure of one massive-neutrino flavour\<close>

text \<open>
  The body of \<open>ninu1\<close> on concrete numbers, \<open>nq\<close> a \<^typ>\<open>nat\<close>. \<open>dq = qmax / nq\<close> on
  Python numbers raises for \<open>nq = 0\<close>. The source reads the interpolant's integral with
  \<open>[0]\<close> from the one-element array \<open>jax_cosmo\<close> returns; the model takes it as the number.
\<close>

definition ninu1_body :: "numlib \<Rightarrow> real \<Rightarrow> real \<Rightarrow> nat \<Rightarrow> real \<Rightarrow> error + (real \<times> real)" where
  "ninu1_body L a amnu nq qmax =
     (if nq = 0 then Inl ZeroDivisionError
      else
        let const = 5.682196976983475;
            dq = qmax / real nq;
            q = map (\<lambda>i. dq * real i) (arange 1 (nq + 1));
            aq = map (\<lambda>qi. a * amnu / qi) q;
            v = map (\<lambda>x. 1 / sqrt (1 + x\<^sup>2)) aq;
            qdn = map (\<lambda>qi. dq * qi ^ 3 / (exp qi + 1)) q;
            dum1 = map2 (/) qdn v;
            dum2 = map2 (*) qdn v
        in
          and_then (jax_spline q dum1) (\<lambda>rho_spline.
            let rhonu = spl_integral L rho_spline 0 qmax in
            and_then (jax_spline q dum2) (\<lambda>p_spline.
              let pnu = spl_integral L p_spline 0 qmax
              in Inr ((rhonu / dq + last dum1 / dq) / const,
                      (pnu / dq + last dum2 / dq) / const / 3))))"

text \<open>
  \<open>ninu1\<close> is the body under \<open>@jax.jit\<close>, which traces every argument the caller passes. A
  traced \<open>nq\<close> is refused by \<open>arange\<close> and a traced \<open>qmax\<close> by the interpolant's integral,
  so the body runs only when both are left out (\<open>None\<close>) and take their defaults 1000 and
  30, as in \<open>cosmo.__init__\<close>.
\<close>

definition ninu1 :: "numlib \<Rightarrow> real \<Rightarrow> real \<Rightarrow> nat option \<Rightarrow> real option \<Rightarrow> error + (real \<times> real)" where
  "ninu1 L a amnu nq qmax =
     (case (nq, qmax) of
        (None, None) \<Rightarrow> ninu1_body L a amnu 1000 30
      | _ \<Rightarrow> Inl TracerError)"

text \<open>
  \<open>ninu1_numoy\<close> is not decorated and builds its interpolants with \<open>scipy\<close>, whose integral
  is a scalar. The two results are then zero-dimensional arrays, and the closing
  \<open>rhonu[0]\<close> raises.
\<close>

definition ninu1_numoy :: "numlib \<Rightarrow> real \<Rightarrow> real \<Rightarrow> nat \<Rightarrow> real \<Rightarrow> error + (real \<times> real)" where
  "ninu1_numoy L a amnu nq qmax =
     (if nq = 0 then Inl ZeroDivisionError
      else
        let dq = qmax / real nq;
            q = map (\<lambda>i. dq * real i) (arange 1 (nq + 1));
            aq = map (\<lambda>qi. a * amnu / qi) q;
            v = map (\<lambda>x. 1 / sqrt (1 + x\<^sup>2)) aq;
            qdn = map (\<lambda>qi. dq * qi ^ 3 / (exp qi + 1)) q;
            dum1 = map2 (/) qdn v;
            dum2 = map2 (*) qdn v
        in
          and_then (scipy_spline q dum1) (\<lambda>rho_spline.
            and_then (scipy_spline q dum2) (\<lambda>p_spline. Inl IndexError)))"

subsection \<open>\<open>nu_perturb\<close>: the four perturbation moments\<close>

text \<open>
  The result is \<open>(drhonu, dpnu, fnu, shearnu)\<close>. The parameter \<open>nq\<close> is accepted and never
  read. \<open>g[-1]\<close> is the last entry of an array of length \<open>nqmax0 + 1\<close>. The four arrays
  are filled first, so a shape error comes before any interpolant is built; the
  interpolants are built on the \<open>nqmax0 + 1\<close> points of the integer grid.
\<close>

definition nu_perturb_jax ::
  "numlib \<Rightarrow> real \<Rightarrow> real \<Rightarrow> real list \<Rightarrow> real list \<Rightarrow> real list \<Rightarrow> nat \<Rightarrow> real
     \<Rightarrow> error + (real \<times> real \<times> real \<times> real)" where
  "nu_perturb_jax L a amnu psi0 psi1 psi2 nq qmax =
     (let nqmax0 = length psi0;
          qmax0 = real nqmax0 - 0.5;
          const = 5.682196976983475;
          q = map (\<lambda>i. real i - 0.5) (arange 1 (nqmax0 + 1));
          qq = map real (arange 0 (nqmax0 + 1));
          aq = map (\<lambda>qi. a * amnu / qi) q;
          v = map (\<lambda>x. 1 / sqrt (1 + x\<^sup>2)) aq;
          qdn = map (\<lambda>qi. qi ^ 3 / (exp qi + 1)) q
      in
        and_then (and_then (and_then (broadcast2 (*) qdn psi0) (\<lambda>t. broadcast2 (/) t v)) (set_tail nqmax0)) (\<lambda>g1.
        and_then (and_then (and_then (broadcast2 (*) qdn psi0) (\<lambda>t. broadcast2 (*) t v)) (set_tail nqmax0)) (\<lambda>g2.
        and_then (and_then (broadcast2 (*) qdn psi1) (set_tail nqmax0)) (\<lambda>g3.
        and_then (and_then (and_then (broadcast2 (*) qdn psi2) (\<lambda>t. broadcast2 (*) t v)) (set_tail nqmax0)) (\<lambda>g4.
        and_then (jax_spline qq g1) (\<lambda>g1_sp. let g01 = spl_integral L g1_sp 0 qmax0 in
        and_then (jax_spline qq g2) (\<lambda>g2_sp. let g02 = spl_integral L g2_sp 0 qmax0 in
        and_then (jax_spline qq g3) (\<lambda>g3_sp. let g03 = spl_integral L g3_sp 0 qmax0 in
        and_then (jax_spline qq g4) (\<lambda>g4_sp. let g04 = spl_integral L g4_sp 0 qmax0 in
          Inr ((g01 + last g1 * 2 / qmax) / const,
               (g02 + last g2 * 2 / qmax) / const / 3,
               (g03 + last g3 * 2 / qmax) / const,
               (g04 + last g4 * 2 / qmax) / const * 2 / 3))))))))))"

definition nu_perturb_numpy ::
  "numlib \<Rightarrow> real \<Rightarrow> real \<Rightarrow> real list \<Rightarrow> real list \<Rightarrow> real list \<Rightarrow> nat \<Rightarrow> real
     \<Rightarrow> error + (real \<times> real \<times> real \<times> real)" where
  "nu_perturb_numpy L a amnu psi0 psi1 psi2 nq qmax =
     (let nqmax0 = length psi0;
          qmax0 = real nqmax0 - 0.5;
          const = 5.682196976983475;
          q = map (\<lambda>i. real i - 0.5) (arange 1 (nqmax0 + 1));
          qq = map real (arange 0 (nqmax0 + 1));
          aq = map (\<lambda>qi. a * amnu / qi) q;
          v = map (\<lambda>x. 1 / sqrt (1 + x\<^sup>2)) aq;
          qdn = map (\<lambda>qi. qi ^ 3 / (exp qi + 1)) q
      in
        and_then (and_then (and_then (broadcast2 (*) qdn psi0) (\<lambda>t. broadcast2 (/) t v)) (set_tail nqmax0)) (\<lambda>g1.
        and_then (and_then (and_then (broadcast2 (*) qdn psi0) (\<lambda>t. broadcast2 (*) t v)) (set_tail nqmax0)) (\<lambda>g2.
        and_then (and_then (broadcast2 (*) qdn psi1) (set_tail nqmax0)) (\<lambda>g3.
        and_then (and_then (and_then (broadcast2 (*) qdn psi2) (\<lambda>t. broadcast2 (*) t v)) (set_tail nqmax0)) (\<lambda>g4.
        and_then (scipy_spline qq g1) (\<lambda>g1_sp. let g01 = spl_integral L g1_sp 0 qmax0 in
        and_then (scipy_spline qq g2) (\<lambda>g2_sp. let g02 = spl_integral L g2_sp 0 qmax0 in
        and_then (scipy_spline qq g3) (\<lambda>g3_sp. let g03 = spl_integral L g3_sp 0 qmax0 in
        and_then (scipy_spline qq g4) (\<lambda>g4_sp. let g04 = spl_integral L g4_sp 0 qmax0 in
          Inr ((g01 + last g1 * 2 / qmax) / const,
               (g02 + last g2 * 2 / qmax) / const / 3,
               (g03 + last g3 * 2 / qmax) / const,
               (g04 + last g4 * 2 / qmax) / const * 2 / 3))))))))))"

subsection \<open>\<open>dtauda_\<close>: derivative of conformal time with respect to the scale factor\<close>

text \<open>
  The assignment to \<open>grho2\<close> ends with its first line. The three lines after it each start
  with \<open>+\<close> and are expression statements of their own: they are evaluated and their
  values dropped.
\<close>

definition dtauda ::
  "real \<Rightarrow> real \<Rightarrow> real \<Rightarrow> real \<Rightarrow> real \<Rightarrow> real \<Rightarrow> real \<Rightarrow> real \<Rightarrow> real \<Rightarrow> (real \<Rightarrow> real) \<Rightarrow> real" where
  "dtauda a grhom grhog grhor Omegam OmegaL Omegak Neff Nmnu rhonu_spline =
     (let grho2 = grhom * Omegam * a
      in sqrt (3.0 / grho2))"

text \<open>The sum as the specification writes it, all five terms under the square root.\<close>

definition grho2_spec ::
  "real \<Rightarrow> real \<Rightarrow> real \<Rightarrow> real \<Rightarrow> real \<Rightarrow> real \<Rightarrow> real \<Rightarrow> real \<Rightarrow> real \<Rightarrow> (real \<Rightarrow> real) \<Rightarrow> real" where
  "grho2_spec a grhom grhog grhor Omegam OmegaL Omegak Neff Nmnu rhonu_spline =
     grhom * Omegam * a + grhog + grhor * (Neff + Nmnu * rhonu_spline a)
       + grhom * OmegaL * a ^ 4 + grhom * Omegak * a\<^sup>2"

definition dtauda_spec ::
  "real \<Rightarrow> real \<Rightarrow> real \<Rightarrow> real \<Rightarrow> real \<Rightarrow> real \<Rightarrow> real \<Rightarrow> real \<Rightarrow> real \<Rightarrow> (real \<Rightarrow> real) \<Rightarrow> real" where
  "dtauda_spec a grhom grhog grhor Omegam OmegaL Omegak Neff Nmnu rhonu_spline =
     sqrt (3 / grho2_spec a grhom grhog grhor Omegam OmegaL Omegak Neff Nmnu rhonu_spline)"

subsection \<open>\<open>cosmo.__init__\<close>\<close>

record cosmo_param =
  param_Omegam :: real
  param_Omegab :: real
  param_OmegaL :: real
  param_Omegac :: real
  param_Omegak :: real
  param_H0 :: real
  param_Tcmb :: real
  param_YHe :: real
  param_Neff :: real
  param_Nmnu :: int
  param_mnu :: real
  param_grhom :: real
  param_grhog :: real
  param_grhor :: real
  param_adotrad :: real
  param_amnu :: real
  param_amin :: real
  param_amax :: real
  param_rhonu_of_a_spline :: spline
  param_pnu_of_a_spline :: spline
  param_taumin :: real
  param_taumax :: real
  param_cs2_of_tau_spline :: spline
  param_tempb_of_tau_spline :: spline
  param_xe_of_tau_spline :: spline
  param_a_of_tau_spline :: spline
  param_tau_of_a_spline :: spline

text \<open>\<open>geomspace(start, stop, num)\<close>: \<open>num\<close> points evenly spaced in the logarithm.\<close>

definition geomspace :: "real \<Rightarrow> real \<Rightarrow> nat \<Rightarrow> real list" where
  "geomspace start stop num =
     map (\<lambda>i. 10 powr (log 10 start + real i * (log 10 stop - log 10 start) / real (num - 1)))
       [0..<num]"

text \<open>
  The loop \<open>for i in range(num_thermo)\<close> over the grid, calling \<open>ninu1(a[i], amnu)\<close> with
  \<open>nq\<close> and \<open>qmax\<close> left out; it fills \<open>rhonu\<close> and \<open>pnu\<close> in grid order.
\<close>

fun ninu1_table :: "numlib \<Rightarrow> real \<Rightarrow> real list \<Rightarrow> error + (real list \<times> real list)" where
  "ninu1_table L amnu [] = Inr ([], [])"
| "ninu1_table L amnu (ai # as) =
     (case ninu1 L ai amnu None None of
        Inl e \<Rightarrow> Inl e
      | Inr (rhonu', pnu') \<Rightarrow>
          (case ninu1_table L amnu as of
             Inl e \<Rightarrow> Inl e
           | Inr (rhonu, pnu) \<Rightarrow> Inr (rhonu' # rhonu, pnu' # pnu)))"

text \<open>
  The arguments are Python floats (\<open>Nmnu\<close> an int), so \<open>mnu * c2ok / Tcmb\<close> raises for
  \<open>Tcmb = 0\<close>, before anything is stored. \<open>rtol\<close>, \<open>atol\<close> and \<open>order\<close> are accepted and
  never read.
\<close>

definition cosmo_init ::
  "numlib \<Rightarrow> real \<Rightarrow> real \<Rightarrow> real \<Rightarrow> real \<Rightarrow> real \<Rightarrow> real \<Rightarrow> real \<Rightarrow> int \<Rightarrow> real \<Rightarrow> real \<Rightarrow> real \<Rightarrow> int
     \<Rightarrow> error + cosmo_param" where
  "cosmo_init L Omegam Omegab OmegaL H0 Tcmb YHe Neff Nmnu mnu rtol atol order =
     (let c2ok = 16258.1581;
          amin = 1 / 10 ^ 9;
          amax = 1.01;
          num_thermo = 1000;
          Omegak = 0.0;
          grhom = 3.3379 / 10 ^ 11 * H0\<^sup>2;
          grhog = 1.4952 / 10 ^ 13 * Tcmb ^ 4;
          grhor = 3.3957 / 10 ^ 14 * Tcmb ^ 4;
          adotrad = 2.8948 / 10 ^ 7 * Tcmb\<^sup>2
      in
        if Tcmb = 0 then Inl ZeroDivisionError
        else
          let amnu = mnu * c2ok / Tcmb;
              a = geomspace amin amax num_thermo
          in
            and_then (ninu1_table L amnu a) (\<lambda>(rhonu, pnu).
            and_then (jax_spline a rhonu) (\<lambda>rhonu_spline.
            and_then (jax_spline a pnu) (\<lambda>pnu_spline.
              let taumin = amin / adotrad;
                  taumax = taumin + romb L
                    (\<lambda>loga. exp loga * dtauda (exp loga) grhom grhog grhor Omegam OmegaL Omegak
                       Neff (of_int Nmnu) (spl_eval L rhonu_spline))
                    (ln amin) (ln amax);
                  th = thermo_compute L taumin taumax num_thermo Tcmb YHe H0 Omegab Omegam OmegaL
                         Neff Nmnu rhonu_spline
              in
            and_then (jax_spline (th_tau th) (th_cs2 th)) (\<lambda>cs2_spline.
            and_then (jax_spline (th_tau th) (th_tb th)) (\<lambda>tempb_spline.
            and_then (jax_spline (th_tau th) (th_xe th)) (\<lambda>xe_spline.
            and_then (jax_spline (th_tau th) (th_a th)) (\<lambda>a_spline.
            and_then (jax_spline (th_a th) (th_tau th)) (\<lambda>tau_spline.
              Inr \<lparr>
                param_Omegam = Omegam,
                param_Omegab = Omegab,
                param_OmegaL = OmegaL,
                param_Omegac = Omegam - Omegab,
                param_Omegak = Omegak,
                param_H0 = H0,
                param_Tcmb = Tcmb,
                param_YHe = YHe,
                param_Neff = Neff,
                param_Nmnu = Nmnu,
                param_mnu = mnu,
                param_grhom = grhom,
                param_grhog = grhog,
                param_grhor = grhor,
                param_adotrad = adotrad,
                param_amnu = amnu,
                param_amin = amin,
                param_amax = amax,
                param_rhonu_of_a_spline = rhonu_spline,
                param_pnu_of_a_spline = pnu_spline,
                param_taumin = taumin,
                param_taumax = taumax,
                param_cs2_of_tau_spline = cs2_spline,
                param_tempb_of_tau_spline = tempb_spline,
                param_xe_of_tau_spline = xe_spline,
                param_a_of_tau_spline = a_spline,
                param_tau_of_a_spline = tau_spline
              \<rparr>)))))))))"

section \<open>The specification's formulas\<close>

text \<open>
  The pointwise form of the weights: the Fermi-Dirac weight \<open>q\<^sup>3 / (e\<^sup>q + 1)\<close> and the
  relativistic factor \<open>v = 1 / sqrt (1 + (a amnu / q)\<^sup>2)\<close>.
\<close>

definition fd_weight :: "real \<Rightarrow> real" where
  "fd_weight q = q ^ 3 / (exp q + 1)"

definition velocity :: "real \<Rightarrow> real \<Rightarrow> real \<Rightarrow> real" where
  "velocity a amnu q = 1 / sqrt (1 + (a * amnu / q)\<^sup>2)"

subsection \<open>The background integral\<close>

definition qgrid :: "nat \<Rightarrow> real \<Rightarrow> real list" where
  "qgrid nq qmax = map (\<lambda>i. qmax / real nq * real i) (arange 1 (nq + 1))"

definition rho_sample :: "real \<Rightarrow> real \<Rightarrow> real \<Rightarrow> real \<Rightarrow> real" where
  "rho_sample a amnu dq q = dq * fd_weight q / velocity a amnu q"

definition p_sample :: "real \<Rightarrow> real \<Rightarrow> real \<Rightarrow> real \<Rightarrow> real" where
  "p_sample a amnu dq q = dq * fd_weight q * velocity a amnu q"


text \<open>The same with the final sample added as it is.\<close>

definition ninu1_amended :: "numlib \<Rightarrow> real \<Rightarrow> real \<Rightarrow> nat \<Rightarrow> real \<Rightarrow> real \<times> real" where
  "ninu1_amended L a amnu nq qmax =
     (let const = 5.682196976983475;
          dq = qmax / real nq;
          q = qgrid nq qmax;
          dum1 = map (rho_sample a amnu dq) q;
          dum2 = map (p_sample a amnu dq) q
      in ((spl_integral L (q, dum1) 0 qmax + last dum1) / dq / const,
          (spl_integral L (q, dum2) 0 qmax + last dum2) / dq / const / 3))"

subsection \<open>The perturbation moments\<close>

text \<open>
  A padded array of size \<open>n + 1\<close>: index 0 is zero, index \<open>i = 1..n\<close> holds the sample at
  the node \<open>q\<^sub>i = i - 0.5\<close>. The moment is the interpolant's integral over the integer
  grid \<open>0..n\<close> from 0 to \<open>qmax0 = n - 0.5\<close>, plus twice the last entry over \<open>qmax\<close>.
\<close>

definition padded :: "(nat \<Rightarrow> real) \<Rightarrow> nat \<Rightarrow> real list" where
  "padded f n = 0 # map f (arange 1 (n + 1))"

definition tail_corrected :: "numlib \<Rightarrow> real list \<Rightarrow> nat \<Rightarrow> real \<Rightarrow> real" where
  "tail_corrected L g n qmax =
     spl_integral L (map real (arange 0 (n + 1)), g) 0 (real n - 0.5) + 2 * last g / qmax"

definition nu_perturb_spec ::
  "numlib \<Rightarrow> real \<Rightarrow> real \<Rightarrow> real list \<Rightarrow> real list \<Rightarrow> real list \<Rightarrow> real
     \<Rightarrow> real \<times> real \<times> real \<times> real" where
  "nu_perturb_spec L a amnu psi0 psi1 psi2 qmax =
     (let n = length psi0;
          const = 5.682196976983475;
          node = (\<lambda>i. real i - 0.5);
          g1 = padded (\<lambda>i. fd_weight (node i) * psi0 ! (i - 1) / velocity a amnu (node i)) n;
          g2 = padded (\<lambda>i. fd_weight (node i) * psi0 ! (i - 1) * velocity a amnu (node i)) n;
          g3 = padded (\<lambda>i. fd_weight (node i) * psi1 ! (i - 1)) n;
          g4 = padded (\<lambda>i. fd_weight (node i) * psi2 ! (i - 1) * velocity a amnu (node i)) n
      in (tail_corrected L g1 n qmax / const,
          tail_corrected L g2 n qmax / const * (1 / 3),
          tail_corrected L g3 n qmax / const,
          tail_corrected L g4 n qmax / const * (2 / 3)))"

text \<open>A length-one array stretched to length \<open>n\<close>, as broadcasting does.\<close>

definition stretch :: "nat \<Rightarrow> real list \<Rightarrow> real list" where
  "stretch n xs = (if length xs = n then xs else replicate n (hd xs))"

subsection \<open>What the initializer needs of the thermal history\<close>

text \<open>Five arrays of one length, at least four points: what the five interpolants need.\<close>

definition thermo_ok :: "thermo \<Rightarrow> bool" where
  "thermo_ok th \<longleftrightarrow>
     4 \<le> length (th_tau th) \<and> length (th_cs2 th) = length (th_tau th)
     \<and> length (th_tb th) = length (th_tau th) \<and> length (th_xe th) = length (th_tau th)
     \<and> length (th_a th) = length (th_tau th)"

subsection \<open>A concrete library\<close>

text \<open>
  An instance of the library parameter, to evaluate the functions at concrete inputs: the
  integral of an interpolant is the mean of its ordinates times the interval's length,
  its value is that mean, \<open>romb\<close> is the trapezoid on the two end points, and the thermal
  history has four points.
\<close>

definition mean_rule :: "spline \<Rightarrow> real \<Rightarrow> real \<Rightarrow> real" where
  "mean_rule sp lo hi = (hi - lo) * (sum_list (snd sp) / real (length (snd sp)))"

definition sample_lib :: numlib where
  "sample_lib = \<lparr>
     spl_integral = mean_rule,
     spl_eval = (\<lambda>sp x. sum_list (snd sp) / real (length (snd sp))),
     romb = (\<lambda>f lo hi. (hi - lo) * (f lo + f hi) / 2),
     thermo_compute = (\<lambda>taumin taumax nthermo Tcmb YHe H0 Omegab Omegam OmegaL Neff Nmnu rhonu_sp.
        \<lparr>th_tau = [1, 2, 3, 4], th_cs2 = [1 / 3, 1 / 3, 1 / 3, 1 / 3],
         th_tb = [Tcmb, Tcmb, Tcmb, Tcmb], th_xe = [1, 1, 1, 1],
         th_a = [1 / 4, 1 / 2, 3 / 4, 1]\<rparr>)
   \<rparr>"

section \<open>Properties\<close>

subsection \<open>Arrays\<close>

lemma length_arange: "length (arange m n) = n - m"
  by (simp add: arange_def)

lemma nth_arange: "i < n - m \<Longrightarrow> arange m n ! i = m + i"
  by (simp add: arange_def)

lemma set_arange: "i \<in> set (arange m n) \<longleftrightarrow> m \<le> i \<and> i < n"
  by (simp add: arange_def)


lemma arange_nonempty: "m < n \<Longrightarrow> arange m n \<noteq> []"
  by (simp add: arange_def)

lemma sorted_arange: "sorted_wrt (<) (map real (arange m n))"
  by (simp add: arange_def sorted_wrt_map)

lemma map2_upt_left:
  "length xs = n \<Longrightarrow>
   map2 f (map g (arange (Suc 0) (Suc n))) xs = map (\<lambda>i. f (g i) (xs ! (i - 1))) (arange (Suc 0) (Suc n))"
  by (rule nth_equalityI) (simp_all add: length_arange nth_arange)

lemma and_then_Inr: "and_then (Inr x) f = f x"
  by (simp add: and_then_def)

lemma and_then_Inl: "and_then (Inl e) f = Inl e"
  by (simp add: and_then_def)

lemma stretch_same: "length xs = n \<Longrightarrow> stretch n xs = xs"
  by (simp add: stretch_def)

lemma length_padded: "length (padded f n) = n + 1"
  by (simp add: padded_def length_arange)

lemma padded_zero:
  assumes "\<And>i. 1 \<le> i \<Longrightarrow> i \<le> n \<Longrightarrow> f i = 0"
  shows "padded f n = replicate (n + 1) 0"
proof -
  have "map f (arange 1 (n + 1)) = replicate n 0"
    by (rule nth_equalityI) (simp_all add: length_arange nth_arange assms)
  then show ?thesis by (simp add: padded_def)
qed

subsection \<open>The interpolant's constructor\<close>

lemma jax_spline_grid:
  "jax_spline (map real (arange 0 (Suc n))) (padded f n)
   = (if 3 \<le> n then Inr (map real (arange 0 (Suc n)), padded f n) else Inl SplineError)"
  by (auto simp: jax_spline_def length_padded length_arange)

lemma scipy_spline_grid:
  "scipy_spline (map real (arange 0 (Suc n))) (padded f n)
   = (if 3 \<le> n then Inr (map real (arange 0 (Suc n)), padded f n) else Inl SplineError)"
  by (auto simp: scipy_spline_def length_padded length_arange sorted_arange)

subsection \<open>The rows of \<open>nu_perturb\<close>\<close>

text \<open>One row \<open>g[1:] = qdn * psi\<close>: it is built when \<open>psi\<close> has the grid's length or length one.\<close>

lemma row_plain:
  "and_then (broadcast2 (*) (map g (arange (Suc 0) (Suc n))) xs) (set_tail n)
   = (if length xs = n \<or> length xs = 1
      then Inr (padded (\<lambda>i. g i * stretch n xs ! (i - 1)) n)
      else Inl BroadcastError)"
proof -
  consider (same) "length xs = n" | (one) "length xs \<noteq> n" "length xs = 1"
    | (bad) "length xs \<noteq> n" "length xs \<noteq> 1" by blast
  then show ?thesis
  proof cases
    case same
    then have "broadcast2 (*) (map g (arange (Suc 0) (Suc n))) xs
               = Inr (map (\<lambda>i. g i * xs ! (i - 1)) (arange (Suc 0) (Suc n)))"
      by (simp add: broadcast2_def map2_upt_left length_arange)
    with same show ?thesis
      by (simp add: and_then_Inr set_tail_def padded_def length_arange stretch_def)
  next
    case one
    then have "broadcast2 (*) (map g (arange (Suc 0) (Suc n))) xs
               = Inr (map (\<lambda>i. g i * hd xs) (arange (Suc 0) (Suc n)))"
      by (simp add: broadcast2_def length_arange)
    moreover have "map (\<lambda>i. g i * hd xs) (arange (Suc 0) (Suc n))
                   = map (\<lambda>i. g i * stretch n xs ! (i - 1)) (arange (Suc 0) (Suc n))"
      using one by (auto simp: set_arange stretch_def)
    ultimately show ?thesis using one
      by (simp add: and_then_Inr set_tail_def padded_def length_arange)
  next
    case bad
    then show ?thesis
      by (auto simp: broadcast2_def set_tail_def and_then_def length_arange)
  qed
qed

text \<open>One row \<open>g[1:] = qdn * psi * v\<close> or \<open>qdn * psi / v\<close>.\<close>

lemma row_v:
  "and_then (and_then (broadcast2 (*) (map g (arange (Suc 0) (Suc n))) xs)
      (\<lambda>t. broadcast2 h t (map w (arange (Suc 0) (Suc n))))) (set_tail n)
   = (if length xs = n \<or> length xs = 1
      then Inr (padded (\<lambda>i. h (g i * stretch n xs ! (i - 1)) (w i)) n)
      else Inl BroadcastError)"
proof -
  consider (same) "length xs = n" | (one) "length xs \<noteq> n" "length xs = 1"
    | (bad) "length xs \<noteq> n" "length xs \<noteq> 1" by blast
  then show ?thesis
  proof cases
    case same
    then have "broadcast2 (*) (map g (arange (Suc 0) (Suc n))) xs
               = Inr (map (\<lambda>i. g i * xs ! (i - 1)) (arange (Suc 0) (Suc n)))"
      by (simp add: broadcast2_def map2_upt_left length_arange)
    moreover have "broadcast2 h (map (\<lambda>i. g i * xs ! (i - 1)) (arange (Suc 0) (Suc n)))
                     (map w (arange (Suc 0) (Suc n)))
                   = Inr (map (\<lambda>i. h (g i * xs ! (i - 1)) (w i)) (arange (Suc 0) (Suc n)))"
      by (simp add: broadcast2_def map2_map_map)
    ultimately show ?thesis using same
      by (simp add: and_then_Inr set_tail_def padded_def length_arange stretch_def)
  next
    case one
    then have "broadcast2 (*) (map g (arange (Suc 0) (Suc n))) xs
               = Inr (map (\<lambda>i. g i * hd xs) (arange (Suc 0) (Suc n)))"
      by (simp add: broadcast2_def length_arange)
    moreover have "broadcast2 h (map (\<lambda>i. g i * hd xs) (arange (Suc 0) (Suc n)))
                     (map w (arange (Suc 0) (Suc n)))
                   = Inr (map (\<lambda>i. h (g i * hd xs) (w i)) (arange (Suc 0) (Suc n)))"
      by (simp add: broadcast2_def map2_map_map)
    moreover have "map (\<lambda>i. h (g i * hd xs) (w i)) (arange (Suc 0) (Suc n))
                   = map (\<lambda>i. h (g i * stretch n xs ! (i - 1)) (w i)) (arange (Suc 0) (Suc n))"
      using one by (auto simp: set_arange stretch_def)
    ultimately show ?thesis using one
      by (simp add: and_then_Inr set_tail_def padded_def length_arange)
  next
    case bad
    then show ?thesis
      by (auto simp: broadcast2_def set_tail_def and_then_def length_arange)
  qed
qed

text \<open>
  The whole of \<open>nu_perturb\<close>: a shape error for lengths that do not broadcast, then the
  constructor's refusal of a grid of fewer than four points, otherwise the moments.
\<close>

lemma nu_perturb_jax_cases:
  "nu_perturb_jax L a amnu psi0 psi1 psi2 nq qmax
   = (if (length psi1 = length psi0 \<or> length psi1 = 1) \<and> (length psi2 = length psi0 \<or> length psi2 = 1)
      then if 3 \<le> length psi0
        then Inr (nu_perturb_spec L a amnu psi0 (stretch (length psi0) psi1) (stretch (length psi0) psi2) qmax)
        else Inl SplineError
      else Inl BroadcastError)"
  unfolding nu_perturb_jax_def nu_perturb_spec_def Let_def map_map comp_def
  by (simp add: row_v row_plain and_then_Inr and_then_Inl stretch_same jax_spline_grid
      tail_corrected_def fd_weight_def velocity_def)

lemma nu_perturb_numpy_cases:
  "nu_perturb_numpy L a amnu psi0 psi1 psi2 nq qmax
   = (if (length psi1 = length psi0 \<or> length psi1 = 1) \<and> (length psi2 = length psi0 \<or> length psi2 = 1)
      then if 3 \<le> length psi0
        then Inr (nu_perturb_spec L a amnu psi0 (stretch (length psi0) psi1) (stretch (length psi0) psi2) qmax)
        else Inl SplineError
      else Inl BroadcastError)"
  unfolding nu_perturb_numpy_def nu_perturb_spec_def Let_def map_map comp_def
  by (simp add: row_v row_plain and_then_Inr and_then_Inl stretch_same scipy_spline_grid
      tail_corrected_def fd_weight_def velocity_def)

subsection \<open>\<open>ninu1\<close> pointwise\<close>

lemma dum1_pointwise:
  "map2 (/) (map (\<lambda>qi. dq * qi ^ 3 / (exp qi + 1)) q)
     (map (\<lambda>x. 1 / sqrt (1 + x\<^sup>2)) (map (\<lambda>qi. a * amnu / qi) q))
   = map (rho_sample a amnu dq) q"
  by (simp add: map2_map_map comp_def rho_sample_def fd_weight_def velocity_def)

lemma dum2_pointwise:
  "map2 (*) (map (\<lambda>qi. dq * qi ^ 3 / (exp qi + 1)) q)
     (map (\<lambda>x. 1 / sqrt (1 + x\<^sup>2)) (map (\<lambda>qi. a * amnu / qi) q))
   = map (p_sample a amnu dq) q"
  by (simp add: map2_map_map comp_def p_sample_def fd_weight_def velocity_def)

lemma tail_algebra: "(I / dq + d / dq) / c = (I + d) / dq / (c :: real)"
  by (simp add: add_divide_distrib)

lemma length_qgrid: "length (qgrid nq qmax) = nq"
  by (simp add: qgrid_def length_arange)

lemma jax_spline_qgrid:
  "jax_spline (qgrid nq qmax) (map f (qgrid nq qmax))
   = (if 4 \<le> nq then Inr (qgrid nq qmax, map f (qgrid nq qmax)) else Inl SplineError)"
  by (simp add: jax_spline_def length_qgrid)

lemma ninu1_body_cases:
  "ninu1_body L a amnu nq qmax
   = (if nq = 0 then Inl ZeroDivisionError
      else if nq < 4 then Inl SplineError
      else Inr (ninu1_amended L a amnu nq qmax))"
  unfolding ninu1_body_def ninu1_amended_def Let_def dum1_pointwise dum2_pointwise tail_algebra
    qgrid_def [symmetric] jax_spline_qgrid
  by (simp add: and_then_Inr and_then_Inl)

lemma ninu1_default: "ninu1 L a amnu None None = Inr (ninu1_amended L a amnu 1000 30)"
  by (simp add: ninu1_def ninu1_body_cases)





lemma qgrid_nonempty: "0 < nq \<Longrightarrow> qgrid nq qmax \<noteq> []"
  by (simp add: qgrid_def arange_nonempty)

lemma fd_weight_pos: "0 < q \<Longrightarrow> 0 < fd_weight q"
  by (simp add: fd_weight_def add_pos_pos)





text \<open>
  The massless limit: with \<open>amnu = 0\<close> the result does not depend on \<open>a\<close>, and the
  pressure is a third of the density.
\<close>

lemma velocity_massless: "velocity a 0 q = 1"
  by (simp add: velocity_def)

lemma samples_massless:
  "rho_sample a 0 dq = (\<lambda>q. dq * fd_weight q)" "p_sample a 0 dq = (\<lambda>q. dq * fd_weight q)"
  by (rule ext, simp add: rho_sample_def p_sample_def velocity_massless)+

lemma ninu1_massless_indep: "ninu1 L a 0 nq qmax = ninu1 L a' 0 nq qmax"
proof (cases "nq = None \<and> qmax = None")
  case True
  then show ?thesis
    by (simp add: ninu1_default ninu1_amended_def samples_massless)
next
  case False
  then show ?thesis
    by (cases nq; cases qmax) (simp_all add: ninu1_def)
qed

lemma ninu1_massless_third:
  assumes "ninu1 L a 0 nq qmax = Inr (rhonu, pnu)"
  shows "pnu = rhonu / 3"
proof -
  have d: "nq = None" "qmax = None"
    using assms by (cases nq; cases qmax; simp add: ninu1_def)+
  have "snd (ninu1_amended L a 0 1000 30) = fst (ninu1_amended L a 0 1000 30) / 3"
    by (simp add: ninu1_amended_def Let_def samples_massless)
  with assms show ?thesis by (simp add: d ninu1_default)
qed

text \<open>
  The density samples grow with \<open>amnu\<close>; so does the density for a library whose integral
  is monotone in the ordinates.
\<close>

lemma rho_sample_mono:
  assumes "0 \<le> a" and "0 \<le> amnu1" and "amnu1 \<le> amnu2" and "0 \<le> dq" and "0 < q"
  shows "rho_sample a amnu1 dq q \<le> rho_sample a amnu2 dq q"
proof -
  have "a * amnu1 / q \<le> a * amnu2 / q"
    using assms by (simp add: divide_right_mono mult_left_mono)
  moreover have "0 \<le> a * amnu1 / q" using assms by simp
  ultimately have "(a * amnu1 / q)\<^sup>2 \<le> (a * amnu2 / q)\<^sup>2"
    by (rule power_mono)
  then have "sqrt (1 + (a * amnu1 / q)\<^sup>2) \<le> sqrt (1 + (a * amnu2 / q)\<^sup>2)" by simp
  moreover have "0 \<le> dq * fd_weight q" using assms fd_weight_pos [of q] by simp
  ultimately have "dq * fd_weight q * sqrt (1 + (a * amnu1 / q)\<^sup>2)
                   \<le> dq * fd_weight q * sqrt (1 + (a * amnu2 / q)\<^sup>2)"
    by (rule mult_left_mono)
  then show ?thesis by (simp add: rho_sample_def velocity_def)
qed

lemma qgrid_pos: "0 < nq \<Longrightarrow> 0 < qmax \<Longrightarrow> q \<in> set (qgrid nq qmax) \<Longrightarrow> 0 < q"
  by (auto simp: qgrid_def set_arange)

lemma ninu1_density_mono_if:
  assumes a: "0 \<le> a" and m: "0 \<le> amnu1" "amnu1 \<le> amnu2" and nq: "0 < nq" and qmax: "0 < qmax"
    and mono: "\<And>ys ys'. list_all2 (\<le>) ys ys' \<Longrightarrow>
      spl_integral L (qgrid nq qmax, ys) 0 qmax \<le> spl_integral L (qgrid nq qmax, ys') 0 qmax"
  shows "fst (ninu1_amended L a amnu1 nq qmax) \<le> fst (ninu1_amended L a amnu2 nq qmax)"
proof -
  define dq where "dq = qmax / real nq"
  have dq: "0 < dq" using nq qmax by (simp add: dq_def)
  have pt: "rho_sample a amnu1 dq q \<le> rho_sample a amnu2 dq q" if "q \<in> set (qgrid nq qmax)" for q
    using rho_sample_mono [OF a m, of dq q] dq qgrid_pos [OF nq qmax that] by simp
  have "list_all2 (\<le>) (map (rho_sample a amnu1 dq) (qgrid nq qmax))
          (map (rho_sample a amnu2 dq) (qgrid nq qmax))"
    by (simp add: list.rel_map list_all2_same pt)
  then have I: "spl_integral L (qgrid nq qmax, map (rho_sample a amnu1 dq) (qgrid nq qmax)) 0 qmax
             \<le> spl_integral L (qgrid nq qmax, map (rho_sample a amnu2 dq) (qgrid nq qmax)) 0 qmax"
    by (rule mono)
  have "last (qgrid nq qmax) \<in> set (qgrid nq qmax)"
    using qgrid_nonempty [OF nq] by simp
  then have d: "last (map (rho_sample a amnu1 dq) (qgrid nq qmax))
             \<le> last (map (rho_sample a amnu2 dq) (qgrid nq qmax))"
    using qgrid_nonempty [OF nq, of qmax] by (simp add: last_map pt)
  have "(spl_integral L (qgrid nq qmax, map (rho_sample a amnu1 dq) (qgrid nq qmax)) 0 qmax
          + last (map (rho_sample a amnu1 dq) (qgrid nq qmax))) / dq / 5.682196976983475
        \<le> (spl_integral L (qgrid nq qmax, map (rho_sample a amnu2 dq) (qgrid nq qmax)) 0 qmax
          + last (map (rho_sample a amnu2 dq) (qgrid nq qmax))) / dq / 5.682196976983475"
    using I d dq by (intro divide_right_mono add_mono) simp_all
  then show ?thesis
    by (simp add: ninu1_amended_def Let_def dq_def)
qed

lemma sorted_map_arange:
  assumes "\<And>i j. i < j \<Longrightarrow> f i < (f j :: real)"
  shows "sorted_wrt (<) (map f (arange m n))"
  by (simp add: sorted_wrt_iff_nth_less length_arange nth_arange assms)

lemma sorted_qgrid: "0 < qmax \<Longrightarrow> 0 < nq \<Longrightarrow> sorted_wrt (<) (qgrid nq qmax)"
  unfolding qgrid_def by (rule sorted_map_arange) (simp add: divide_strict_right_mono)

lemma ninu1_numoy_index_error:
  assumes "4 \<le> nq" and "0 < qmax"
  shows "ninu1_numoy L a amnu nq qmax = Inl IndexError"
proof -
  have s: "sorted_wrt (<) (qgrid nq qmax)" using assms by (simp add: sorted_qgrid)
  have "scipy_spline (qgrid nq qmax) (map f (qgrid nq qmax))
        = Inr (qgrid nq qmax, map f (qgrid nq qmax))" for f
    using assms s by (simp add: scipy_spline_def length_qgrid)
  then show ?thesis
    using assms unfolding ninu1_numoy_def Let_def dum1_pointwise dum2_pointwise qgrid_def [symmetric]
    by (simp add: and_then_Inr)
qed

subsection \<open>The initializer\<close>

lemma ninu1_table_returns:
  "\<exists>rs ps. ninu1_table L amnu as = Inr (rs, ps) \<and> length rs = length as \<and> length ps = length as"
proof (induction as)
  case Nil
  show ?case by simp
next
  case (Cons ai as)
  then obtain rs ps where "ninu1_table L amnu as = Inr (rs, ps)" "length rs = length as"
    "length ps = length as" by auto
  then show ?case by (simp add: ninu1_default split: prod.splits)
qed

lemma length_geomspace: "length (geomspace start stop num) = num"
  by (simp add: geomspace_def)

lemma jax_spline_Inr: "jax_spline x y = Inr sp \<Longrightarrow> sp = (x, y)"
  by (auto simp: jax_spline_def split: if_splits)

lemma and_then_InrD: "and_then r f = Inr y \<Longrightarrow> \<exists>x. r = Inr x \<and> f x = Inr y"
  by (cases r) (simp_all add: and_then_def)

lemma cosmo_init_fields:
  assumes "cosmo_init L Omegam Omegab OmegaL H0 Tcmb YHe Neff Nmnu mnu rtol atol order = Inr c"
  shows "param_Omegak c = 0"
    and "param_amin c = 1 / 10 ^ 9" and "param_amax c = 1.01"
    and "param_adotrad c = 2.8948 / 10 ^ 7 * Tcmb\<^sup>2"
    and "param_grhom c = 3.3379 / 10 ^ 11 * H0\<^sup>2"
    and "param_grhog c = 1.4952 / 10 ^ 13 * Tcmb ^ 4"
    and "param_grhor c = 3.3957 / 10 ^ 14 * Tcmb ^ 4"
    and "param_taumin c = param_amin c / param_adotrad c"
    and "param_taumax c = param_taumin c + romb L
          (\<lambda>loga. exp loga * dtauda (exp loga) (param_grhom c) (param_grhog c) (param_grhor c)
             Omegam OmegaL (param_Omegak c) Neff (of_int Nmnu) (spl_eval L (param_rhonu_of_a_spline c)))
          (ln (param_amin c)) (ln (param_amax c))"
  using assms unfolding cosmo_init_def Let_def
  by (auto split: if_splits prod.splits dest!: and_then_InrD)

lemma cosmo_init_returns:
  assumes "Tcmb \<noteq> 0"
    and "\<And>taumin taumax sp.
      thermo_ok (thermo_compute L taumin taumax 1000 Tcmb YHe H0 Omegab Omegam OmegaL Neff Nmnu sp)"
  shows "\<exists>c. cosmo_init L Omegam Omegab OmegaL H0 Tcmb YHe Neff Nmnu mnu rtol atol order = Inr c"
proof -
  obtain rs ps where t: "ninu1_table L (mnu * 16258.1581 / Tcmb) (geomspace (1 / 10 ^ 9) 1.01 1000) = Inr (rs, ps)"
    and l: "length rs = 1000" "length ps = 1000"
    using ninu1_table_returns [of L "mnu * 16258.1581 / Tcmb" "geomspace (1 / 10 ^ 9) 1.01 1000"]
    by (auto simp: length_geomspace)
  have j: "jax_spline (geomspace (1 / 10 ^ 9) 1.01 1000) rs = Inr (geomspace (1 / 10 ^ 9) 1.01 1000, rs)"
    "jax_spline (geomspace (1 / 10 ^ 9) 1.01 1000) ps = Inr (geomspace (1 / 10 ^ 9) 1.01 1000, ps)"
    using l by (simp_all add: jax_spline_def length_geomspace)
  have k: "jax_spline (th_tau th) (th_cs2 th) = Inr (th_tau th, th_cs2 th)"
    "jax_spline (th_tau th) (th_tb th) = Inr (th_tau th, th_tb th)"
    "jax_spline (th_tau th) (th_xe th) = Inr (th_tau th, th_xe th)"
    "jax_spline (th_tau th) (th_a th) = Inr (th_tau th, th_a th)"
    "jax_spline (th_a th) (th_tau th) = Inr (th_a th, th_tau th)"
    if "thermo_ok th" for th
    using that by (simp_all add: jax_spline_def thermo_ok_def)
  show ?thesis
    using assms(1) t j unfolding cosmo_init_def Let_def
    by (simp add: and_then_Inr k [OF assms(2)])
qed

lemma sample_thermo_ok:
  "thermo_ok (thermo_compute sample_lib taumin taumax n Tcmb YHe H0 Omegab Omegam OmegaL Neff Nmnu sp)"
  by (simp add: sample_lib_def thermo_ok_def)

lemma dtauda_eq:
  "dtauda a grhom grhog grhor Omegam OmegaL Omegak Neff Nmnu rhonu_spline
   = sqrt (3 / (grhom * Omegam * a))"
  by (simp add: dtauda_def)

lemma dtauda_spec_less:
  assumes "0 < grhom * Omegam * a"
    and "0 < grhog + grhor * (Neff + Nmnu * r a) + grhom * OmegaL * a ^ 4 + grhom * Omegak * a\<^sup>2"
  shows "dtauda_spec a grhom grhog grhor Omegam OmegaL Omegak Neff Nmnu r
         < dtauda a grhom grhog grhor Omegam OmegaL Omegak Neff Nmnu r"
proof -
  have "grhom * Omegam * a < grho2_spec a grhom grhog grhor Omegam OmegaL Omegak Neff Nmnu r"
    using assms(2) by (simp add: grho2_spec_def)
  then have "3 / grho2_spec a grhom grhog grhor Omegam OmegaL Omegak Neff Nmnu r
             < 3 / (grhom * Omegam * a)"
    using assms(1) by (simp add: frac_less2)
  then show ?thesis by (simp add: dtauda_spec_def dtauda_eq)
qed

lemma cosmo_taumax_eq:
  assumes "cosmo_init L Omegam Omegab OmegaL H0 Tcmb YHe Neff Nmnu mnu rtol atol order = Inr c"
  shows "param_taumax c = param_taumin c + romb L
          (\<lambda>loga. exp loga * sqrt (3 / (param_grhom c * Omegam * exp loga)))
          (ln (param_amin c)) (ln (param_amax c))"
  using cosmo_init_fields(9) [OF assms] by (simp only: dtauda_eq)

section \<open>The claims\<close>

text \<open>
  C1. The claim: \<open>dtauda_\<close> returns \<open>sqrt (3 / grho2)\<close> with all five terms of the Friedmann
  sum under the root. The code keeps the first term only. At
  \<open>a = grhom = grhog = grhor = Omegam = OmegaL = Neff = 1\<close>, \<open>Omegak = Nmnu = 0\<close> and
  \<open>rhonu = 1\<close> the code returns \<open>sqrt 3\<close>, and the five-term sum is 4, which gives
  \<open>sqrt 3 / 2\<close>.
\<close>

theorem dtauda_drops_terms:
  "dtauda 1 1 1 1 1 1 0 1 0 (\<lambda>a. 1) = sqrt 3
   \<and> dtauda_spec 1 1 1 1 1 1 0 1 0 (\<lambda>a. 1) = sqrt 3 / 2
   \<and> dtauda 1 1 1 1 1 1 0 1 0 (\<lambda>a. 1) \<noteq> dtauda_spec 1 1 1 1 1 1 0 1 0 (\<lambda>a. 1)"
proof -
  have c: "dtauda 1 1 1 1 1 1 0 1 0 (\<lambda>a. 1) = sqrt 3"
    by (simp add: dtauda_def)
  have "dtauda_spec 1 1 1 1 1 1 0 1 0 (\<lambda>a. 1) = sqrt (3 / 4)"
    by (simp add: dtauda_spec_def grho2_spec_def)
  also have "\<dots> = sqrt 3 / sqrt 4" by (rule real_sqrt_divide)
  also have "sqrt 4 = (2::real)" using real_sqrt_abs [of 2] by simp
  finally have s: "dtauda_spec 1 1 1 1 1 1 0 1 0 (\<lambda>a. 1) = sqrt 3 / 2" .
  have n: "sqrt 3 \<noteq> sqrt 3 / (2::real)" by simp
  show ?thesis unfolding c s using n by simp
qed




text \<open>
  C3. For inputs \<open>psi0\<close>, \<open>psi1\<close>, \<open>psi2\<close> of one length \<open>n \<ge> 3\<close> (the interpolant takes
  the \<open>n + 1\<close> grid points from four on), both variants of \<open>nu_perturb\<close> return the four
  moments of \<open>nu_perturb_spec\<close>: each is the interpolant's integral of the padded weighted
  samples over \<open>[0, n - 0.5]\<close> plus twice the last sample over the parameter \<open>qmax\<close>,
  divided by \<open>const\<close>; the pressure moment is scaled by \<open>1/3\<close> more and the shear moment
  by \<open>2/3\<close> more.
\<close>

theorem nu_perturb_moments:
  assumes "3 \<le> length psi0" and "length psi1 = length psi0" and "length psi2 = length psi0"
  shows "nu_perturb_jax L a amnu psi0 psi1 psi2 nq qmax
           = Inr (nu_perturb_spec L a amnu psi0 psi1 psi2 qmax)
         \<and> nu_perturb_numpy L a amnu psi0 psi1 psi2 nq qmax
           = Inr (nu_perturb_spec L a amnu psi0 psi1 psi2 qmax)"
  using assms by (simp add: nu_perturb_numpy_cases nu_perturb_jax_cases stretch_same)

theorem nu_perturb_moments_witness:
  "nu_perturb_jax sample_lib 1 1 [1, 2, 3, 4] [5, 6, 7, 8] [9, 10, 11, 12] 1000 30
     = Inr (nu_perturb_spec sample_lib 1 1 [1, 2, 3, 4] [5, 6, 7, 8] [9, 10, 11, 12] 30)
   \<and> nu_perturb_numpy sample_lib 1 1 [1, 2, 3, 4] [5, 6, 7, 8] [9, 10, 11, 12] 1000 30
     = Inr (nu_perturb_spec sample_lib 1 1 [1, 2, 3, 4] [5, 6, 7, 8] [9, 10, 11, 12] 30)"
  using nu_perturb_moments [of "[1, 2, 3, 4]" "[5, 6, 7, 8]" "[9, 10, 11, 12]" sample_lib 1 1 1000 30]
  by simp

text \<open>
  C4. The claim: every call with inputs of different lengths raises. It fails where the
  odd one out has length one: \<open>psi0\<close> and \<open>psi2\<close> of length 4 with \<open>psi1\<close> of length 1
  return the moments of \<open>psi1\<close> stretched to length 4.
\<close>

theorem nu_perturb_length_mismatch_counterexample:
  "length [1, 1, 1, 1 :: real] \<noteq> length [1 :: real]
   \<and> nu_perturb_jax sample_lib 1 1 [1, 1, 1, 1] [1] [1, 1, 1, 1] 1000 30
       = Inr (nu_perturb_spec sample_lib 1 1 [1, 1, 1, 1] [1, 1, 1, 1] [1, 1, 1, 1] 30)
   \<and> nu_perturb_numpy sample_lib 1 1 [1, 1, 1, 1] [1] [1, 1, 1, 1] 1000 30
       = Inr (nu_perturb_spec sample_lib 1 1 [1, 1, 1, 1] [1, 1, 1, 1] [1, 1, 1, 1] 30)"
proof -
  have "stretch (length [1, 1, 1, 1 :: real]) [1] = [1, 1, 1, 1 :: real]"
    by (simp add: stretch_def)
  then show ?thesis
    unfolding nu_perturb_numpy_cases nu_perturb_jax_cases by (simp add: stretch_same)
qed

text \<open>
  C4, amended. \<open>nu_perturb\<close> checks no lengths itself. When \<open>psi1\<close> or \<open>psi2\<close> has a length
  other than that of \<open>psi0\<close> and other than one, the array arithmetic raises its shape
  error; lengths 10 and 9 raise it. A \<open>psi1\<close> or \<open>psi2\<close> of length one is stretched to the
  length of \<open>psi0\<close> without a word. With lengths that pass, a \<open>psi0\<close> shorter than 3 is
  refused by the interpolant's constructor, and from length 3 on the moments are returned.
\<close>

theorem nu_perturb_shape_error:
  "nu_perturb_jax L a amnu psi0 psi1 psi2 nq qmax
     = (if (length psi1 = length psi0 \<or> length psi1 = 1) \<and> (length psi2 = length psi0 \<or> length psi2 = 1)
        then if 3 \<le> length psi0
          then Inr (nu_perturb_spec L a amnu psi0 (stretch (length psi0) psi1) (stretch (length psi0) psi2) qmax)
          else Inl SplineError
        else Inl BroadcastError)
   \<and> nu_perturb_numpy L a amnu psi0 psi1 psi2 nq qmax
     = (if (length psi1 = length psi0 \<or> length psi1 = 1) \<and> (length psi2 = length psi0 \<or> length psi2 = 1)
        then if 3 \<le> length psi0
          then Inr (nu_perturb_spec L a amnu psi0 (stretch (length psi0) psi1) (stretch (length psi0) psi2) qmax)
          else Inl SplineError
        else Inl BroadcastError)"
  by (simp only: nu_perturb_jax_cases nu_perturb_numpy_cases simp_thms)

theorem nu_perturb_shape_error_witness:
  "nu_perturb_jax sample_lib 1 1 (replicate 10 1) (replicate 9 1) (replicate 10 1) 1000 30
     = Inl BroadcastError
   \<and> nu_perturb_numpy sample_lib 1 1 (replicate 10 1) (replicate 9 1) (replicate 10 1) 1000 30
     = Inl BroadcastError"
  using nu_perturb_shape_error [of sample_lib 1 1 "replicate 10 1" "replicate 9 1" "replicate 10 1" 1000 30]
  by simp

text \<open>
  C6. The claim: all-zero inputs of any common positive length give \<open>(0, 0, 0, 0)\<close>. With
  inputs of length 1 the grid has two points, the interpolant's constructor refuses it,
  and neither variant returns a value.
\<close>

theorem nu_perturb_zero_short_counterexample:
  "nu_perturb_jax sample_lib 1 1 [0] [0] [0] 1000 30 = Inl SplineError
   \<and> nu_perturb_numpy sample_lib 1 1 [0] [0] [0] 1000 30 = Inl SplineError"
  by (simp add: nu_perturb_numpy_cases nu_perturb_jax_cases)

text \<open>
  C6, amended. With \<open>psi0\<close>, \<open>psi1\<close> and \<open>psi2\<close> all zero, of one length \<open>n \<ge> 3\<close>, and
  \<open>qmax \<noteq> 0\<close>, both variants of \<open>nu_perturb\<close> return \<open>(0, 0, 0, 0)\<close>, for every \<open>a\<close>,
  \<open>amnu\<close> and \<open>nq\<close>. The library enters through one fact: the interpolant through the
  all-zero samples on the grid \<open>0..n\<close> integrates to zero over \<open>[0, n - 0.5]\<close>.
\<close>

theorem nu_perturb_zero:
  assumes "3 \<le> n" and "qmax \<noteq> 0"
    and "spl_integral L (map real (arange 0 (n + 1)), replicate (n + 1) 0) 0 (real n - 0.5) = 0"
  shows "nu_perturb_jax L a amnu (replicate n 0) (replicate n 0) (replicate n 0) nq qmax
           = Inr (0, 0, 0, 0)
         \<and> nu_perturb_numpy L a amnu (replicate n 0) (replicate n 0) (replicate n 0) nq qmax
           = Inr (0, 0, 0, 0)"
proof -
  have g1: "padded (\<lambda>i. fd_weight (real i - 0.5) * replicate n 0 ! (i - 1) / velocity a amnu (real i - 0.5)) n
            = replicate (n + 1) 0"
    by (rule padded_zero) simp
  have g2: "padded (\<lambda>i. fd_weight (real i - 0.5) * replicate n 0 ! (i - 1) * velocity a amnu (real i - 0.5)) n
            = replicate (n + 1) 0"
    by (rule padded_zero) simp
  have g3: "padded (\<lambda>i. fd_weight (real i - 0.5) * replicate n 0 ! (i - 1)) n = replicate (n + 1) 0"
    by (rule padded_zero) simp
  have t: "tail_corrected L (replicate (n + 1) 0) n qmax = 0"
    using assms(3) by (simp add: tail_corrected_def)
  have "nu_perturb_spec L a amnu (replicate n 0) (replicate n 0) (replicate n 0) qmax = (0, 0, 0, 0)"
    unfolding nu_perturb_spec_def Let_def length_replicate g1 g2 g3 t by simp
  then show ?thesis
    using assms(1) by (simp add: nu_perturb_numpy_cases nu_perturb_jax_cases stretch_same)
qed

theorem nu_perturb_zero_witness:
  "nu_perturb_jax sample_lib 1 1 (replicate 3 0) (replicate 3 0) (replicate 3 0) 1000 30 = Inr (0, 0, 0, 0)
   \<and> nu_perturb_numpy sample_lib 1 1 (replicate 3 0) (replicate 3 0) (replicate 3 0) 1000 30 = Inr (0, 0, 0, 0)"
proof -
  have p: "3 \<le> (3 :: nat)" by simp
  have q: "(30 :: real) \<noteq> 0" by simp
  have h: "spl_integral sample_lib (map real (arange 0 (3 + 1)), replicate (3 + 1) 0) 0 (real 3 - 0.5) = 0"
    by (simp add: sample_lib_def mean_rule_def sum_list_replicate)
  show ?thesis using nu_perturb_zero [OF p q h, of 1 1 1000] by simp
qed

text \<open>
  C8. The claim: \<open>taumin = amin / adotrad\<close>, and \<open>taumax\<close> is \<open>taumin\<close> plus the quadrature
  of \<open>a dtau/da\<close> over \<open>[ln amin, ln amax]\<close>, \<open>dtau/da\<close> being the five-term function of
  the specification. \<open>taumin\<close> is as claimed. The integrand the code hands to \<open>romb\<close> goes
  through \<open>dtauda_\<close> and has the first term only. For
  \<open>Omegam = 0.3\<close>, \<open>Omegab = 0.05\<close>, \<open>OmegaL = 0.7\<close>, \<open>H0 = 67\<close>, \<open>Tcmb = 2.725\<close>,
  \<open>YHe = 0.245\<close>, \<open>Neff = 3.046\<close>, \<open>Nmnu = 0\<close>, \<open>mnu = 0\<close> and the concrete library, the
  stored \<open>taumax\<close> is the quadrature of the one-term integrand and lies above that of the
  five-term integrand.
\<close>

theorem cosmo_taumax_one_term:
  "\<exists>c. cosmo_init sample_lib 0.3 0.05 0.7 67 2.725 0.245 3.046 0 0 (1 / 10 ^ 5) (1 / 10 ^ 7) 5 = Inr c
     \<and> param_taumin c = param_amin c / param_adotrad c
     \<and> param_taumax c = param_taumin c + romb sample_lib
          (\<lambda>loga. exp loga * sqrt (3 / (param_grhom c * 0.3 * exp loga)))
          (ln (param_amin c)) (ln (param_amax c))
     \<and> param_taumin c + romb sample_lib
          (\<lambda>loga. exp loga * dtauda_spec (exp loga) (param_grhom c) (param_grhog c) (param_grhor c)
             0.3 0.7 (param_Omegak c) 3.046 0 (spl_eval sample_lib (param_rhonu_of_a_spline c)))
          (ln (param_amin c)) (ln (param_amax c))
       < param_taumax c"
proof -
  have "\<exists>c. cosmo_init sample_lib 0.3 0.05 0.7 67 2.725 0.245 3.046 0 0 (1 / 10 ^ 5) (1 / 10 ^ 7) 5 = Inr c"
    by (rule cosmo_init_returns) (simp_all add: sample_thermo_ok)
  then obtain c where h: "cosmo_init sample_lib 0.3 0.05 0.7 67 2.725 0.245 3.046 0 0 (1 / 10 ^ 5) (1 / 10 ^ 7) 5 = Inr c" ..
  note f = cosmo_init_fields [OF h]
  define r where "r = spl_eval sample_lib (param_rhonu_of_a_spline c)"
  define F where "F = (\<lambda>x. exp x * sqrt (3 / (param_grhom c * 0.3 * exp x)))"
  define G where "G = (\<lambda>x. exp x * dtauda_spec (exp x) (param_grhom c) (param_grhog c) (param_grhor c)
             0.3 0.7 (param_Omegak c) 3.046 0 r)"
  have pos: "0 < param_grhom c" "0 < param_grhog c" "0 < param_grhor c"
    by (simp_all add: f)
  have less: "G x < F x" for x
  proof -
    have 1: "0 < param_grhom c * 0.3 * exp x" using pos by simp
    have "0 < param_grhor c * 3.046" "0 \<le> param_grhom c * 0.7 * exp x ^ 4"
      using pos by simp_all
    then have 2: "0 < param_grhog c + param_grhor c * (3.046 + 0 * r (exp x))
                    + param_grhom c * 0.7 * exp x ^ 4 + param_grhom c * param_Omegak c * (exp x)\<^sup>2"
      using pos(2) by (simp add: f(1) add_pos_pos add_pos_nonneg)
    have "dtauda_spec (exp x) (param_grhom c) (param_grhog c) (param_grhor c) 0.3 0.7 (param_Omegak c) 3.046 0 r
          < dtauda (exp x) (param_grhom c) (param_grhog c) (param_grhor c) 0.3 0.7 (param_Omegak c) 3.046 0 r"
      using 1 2 by (rule dtauda_spec_less)
    then show ?thesis by (simp add: G_def F_def dtauda_eq)
  qed
  have lohi: "ln (param_amin c) < ln (param_amax c)" by (simp add: f)
  have rb: "romb sample_lib g lo hi = (hi - lo) * (g lo + g hi) / 2" for g lo hi
    by (simp add: sample_lib_def)
  have "G (ln (param_amin c)) + G (ln (param_amax c)) < F (ln (param_amin c)) + F (ln (param_amax c))"
    by (intro add_strict_mono less)
  then have "romb sample_lib G (ln (param_amin c)) (ln (param_amax c))
             < romb sample_lib F (ln (param_amin c)) (ln (param_amax c))"
    unfolding rb using lohi by (simp add: divide_strict_right_mono)
  moreover have "param_taumax c = param_taumin c + romb sample_lib F (ln (param_amin c)) (ln (param_amax c))"
    unfolding F_def by (rule cosmo_taumax_eq [OF h])
  ultimately show ?thesis
    using h f(8) unfolding F_def G_def r_def by (intro exI [of _ c]) simp
qed

text \<open>
  C9. Every cosmology the initializer builds stores \<open>Omegak = 0\<close>, whatever \<open>Omegam\<close> and
  \<open>OmegaL\<close> are.
\<close>

theorem cosmo_Omegak_zero:
  "cosmo_init L Omegam Omegab OmegaL H0 Tcmb YHe Neff Nmnu mnu rtol atol order = Inr c
   \<Longrightarrow> param_Omegak c = 0"
  by (rule cosmo_init_fields(1))

theorem cosmo_Omegak_zero_witness:
  "\<exists>c. cosmo_init sample_lib 0.3 0.05 0.7 67 2.725 0.245 3.046 0 0 (1 / 10 ^ 5) (1 / 10 ^ 7) 5 = Inr c
     \<and> param_Omegak c = 0"
proof -
  have "\<exists>c. cosmo_init sample_lib 0.3 0.05 0.7 67 2.725 0.245 3.046 0 0 (1 / 10 ^ 5) (1 / 10 ^ 7) 5 = Inr c"
    by (rule cosmo_init_returns) (simp_all add: sample_thermo_ok)
  then obtain c where h: "cosmo_init sample_lib 0.3 0.05 0.7 67 2.725 0.245 3.046 0 0 (1 / 10 ^ 5) (1 / 10 ^ 7) 5 = Inr c" ..
  show ?thesis using h cosmo_Omegak_zero [OF h] by simp
qed

text \<open>
  C10. The result of \<open>nu_perturb\<close> is the same for any two values of \<open>nq\<close>, the other
  arguments being equal.
\<close>

theorem nu_perturb_ignores_nq:
  "nu_perturb_jax L a amnu psi0 psi1 psi2 nq1 qmax = nu_perturb_jax L a amnu psi0 psi1 psi2 nq2 qmax
   \<and> nu_perturb_numpy L a amnu psi0 psi1 psi2 nq1 qmax = nu_perturb_numpy L a amnu psi0 psi1 psi2 nq2 qmax"
  unfolding nu_perturb_jax_def nu_perturb_numpy_def by (rule conjI; rule refl)

end
